theory Spec2Isabelle
  imports Complex_Main
begin

section \<open>The MovieDB controller: data model\<close>

text \<open>
  The embedding follows \<^verbatim>\<open>server/controllers/movie-db.js\<close> and the table created by
  \<^verbatim>\<open>migrations/sequential/20200327081600-create-demo-app-user.js\<close>.
  Times are integers: a JavaScript \<^verbatim>\<open>Date\<close> is its \<^verbatim>\<open>getTime()\<close> value in
  milliseconds; the only fractional number of the controller, the expiry
  \<^verbatim>\<open>timestamp + durationMs / 1000\<close>, is a rational.
\<close>

subsection \<open>Errors\<close>

text \<open>
  The codes handed to \<^verbatim>\<open>new APIError(...)\<close> in the controller. \<^verbatim>\<open>VALIDATION_FAILED\<close>
  is what \<^verbatim>\<open>this.validate\<close> of the base controller throws.
\<close>

datatype api_error =
    ERR_1
  | ERR_2
  | ERR_3
  | RESPONSE_ERROR_UNAUTHORIZED
  | VALIDATION_FAILED

text \<open>
  Modelled from the spec: the table of \<^verbatim>\<open>server/api-error.js\<close> that maps a code to its
  kind of failure is missing. The spec's taxonomy: \<open>Unauthorized\<close> covers a missing,
  invalid, expired or replayed session token (the codes \<^verbatim>\<open>ERR_1\<close>, session expired, and
  \<^verbatim>\<open>ERR_2\<close>, session invalid, are propagated as \<open>Unauthorized\<close>), a wrong client secret
  and an unknown user.
\<close>

fun isUnauthorized :: "api_error \<Rightarrow> bool" where
  "isUnauthorized ERR_1 = True"
| "isUnauthorized ERR_2 = True"
| "isUnauthorized RESPONSE_ERROR_UNAUTHORIZED = True"
| "isUnauthorized ERR_3 = False"
| "isUnauthorized VALIDATION_FAILED = False"

subsection \<open>The AppUser table\<close>

text \<open>
  One row of \<^verbatim>\<open>AppUser\<close>. The primary key \<^verbatim>\<open>id\<close> is the field \<open>id_pk\<close>
  (\<open>id\<close> is HOL's identity function). \<open>lastLogIn\<close> is nullable: \<open>None\<close> is SQL NULL.
\<close>

record app_user =
  id_pk :: nat
  extId :: string
  userHash :: string
  fullName :: "string option"
  lastLogIn :: "int option"
  createdAt :: int
  updatedAt :: int

subsection \<open>Tokens and the jsonwebtoken library\<close>

text \<open>
  The payload of \<^verbatim>\<open>UserSessionJWTPayload\<close>: \<^verbatim>\<open>{iat, exp, data: {userId, sessionId}}\<close>.
\<close>

record jwt_payload =
  jwt_iat :: int
  jwt_exp :: rat
  data_userId :: string
  data_sessionId :: string

text \<open>
  A token string as a client can present it: either text that does not parse as a JWT,
  or a payload together with the secret its signature was made with. The signature is
  ideal: it verifies under a secret exactly when it was made with that secret.
\<close>

datatype jwt_string =
    Malformed string
  | Signed jwt_payload string

datatype jwt_error = TokenExpiredError | JsonWebTokenError

text \<open>\<^verbatim>\<open>Math.floor(Date.now() / 1000)\<close>, the clock of the library in whole seconds.\<close>

definition clockTimestamp :: "int \<Rightarrow> int" where
  "clockTimestamp nowMs = nowMs div 1000"

text \<open>
  \<^verbatim>\<open>jwt.sign({exp, data}, secret)\<close>: the library adds \<^verbatim>\<open>iat\<close>, its own clock reading,
  to the payload it is given.
\<close>

definition jwt_sign :: "rat \<Rightarrow> string \<Rightarrow> string \<Rightarrow> string \<Rightarrow> int \<Rightarrow> jwt_string" where
  "jwt_sign expiry uid sid secret nowMs =
     Signed \<lparr>jwt_iat = clockTimestamp nowMs, jwt_exp = expiry,
             data_userId = uid, data_sessionId = sid\<rparr> secret"

text \<open>
  \<^verbatim>\<open>jwt.verify(token, secret, callback)\<close>: an absent token (\<open>None\<close>, the header was not
  sent) and a malformed one are rejected first, then the signature is checked, and only
  then the expiry: \<^verbatim>\<open>clockTimestamp >= payload.exp\<close> is \<^verbatim>\<open>TokenExpiredError\<close>.
\<close>

fun jwt_verify :: "jwt_string option \<Rightarrow> string \<Rightarrow> int \<Rightarrow> jwt_error + jwt_payload" where
  "jwt_verify None secret nowMs = Inl JsonWebTokenError"
| "jwt_verify (Some (Malformed s)) secret nowMs = Inl JsonWebTokenError"
| "jwt_verify (Some (Signed p k)) secret nowMs =
     (if k \<noteq> secret then Inl JsonWebTokenError
      else if of_int (clockTimestamp nowMs) \<ge> jwt_exp p then Inl TokenExpiredError
      else Inr p)"

text \<open>
  Whether the signature of a presented token verifies under a secret: an absent or
  malformed token has none that does.
\<close>

fun signatureVerifies :: "jwt_string option \<Rightarrow> string \<Rightarrow> bool" where
  "signatureVerifies None secret = False"
| "signatureVerifies (Some (Malformed s)) secret = False"
| "signatureVerifies (Some (Signed p k)) secret = (k = secret)"

subsection \<open>The controller and the world around it\<close>

datatype verifier_response = VerifierOk string | VerifierFail

text \<open>
  \<^verbatim>\<open>this.config.client\<close> and the collaborators the controller calls but does not
  define: \<^verbatim>\<open>this.components.Common.hmac\<close>, the \<^verbatim>\<open>ms\<close> duration parser, and the answer
  of the humanID service to \<^verbatim>\<open>verifyExchangeToken\<close> (\<^verbatim>\<open>respBody.success\<close> and
  \<^verbatim>\<open>respBody.data.userHash\<close>). They are parameters of every theorem.
\<close>

record controller =
  appSecret :: string
  sessionIdSecret :: string
  jwtSecret :: string
  jwtLifetime :: string
  hmac :: "string \<Rightarrow> string \<Rightarrow> string"
  ms :: "string \<Rightarrow> int"
  humanID :: "string \<Rightarrow> verifier_response"

datatype log_entry =
    SessionValidationFailed api_error
  | UpdateResult nat
  | ReceivedErrorResponse

text \<open>
  Everything a request can change: the rows of \<^verbatim>\<open>AppUser\<close> in insertion order, the
  auto-increment counter of the table, the exchange tokens sent to the humanID service
  so far, and the lines written to the logger.
\<close>

record world =
  AppUser :: "app_user list"
  nextId :: nat
  verifyCalls :: "string list"
  logged :: "log_entry list"

record user_access =
  ua_id :: nat
  ua_extId :: string

record user_session =
  token :: jwt_string
  expiredAt :: rat

record login_body =
  exchangeToken :: "string option"

record profile_body =
  body_fullName :: "string option"

section \<open>The repository operations used by the controller\<close>

text \<open>\<^verbatim>\<open>AppUser.findOne({where: {extId}})\<close>: the first row with that external id.\<close>

definition findOne_extId :: "string \<Rightarrow> app_user list \<Rightarrow> app_user option" where
  "findOne_extId e rows = find (\<lambda>u. extId u = e) rows"

text \<open>
  \<^verbatim>\<open>AppUser.update(values, {where: {id}})\<close>: \<open>f\<close> writes the values into every row whose
  primary key is \<open>i\<close>; the result of the call is the number of rows it touched. The
  columns hold what the controller writes; a timestamp the ORM may add on its own is left
  out.
\<close>

definition update_where_id :: "(app_user \<Rightarrow> app_user) \<Rightarrow> nat \<Rightarrow> app_user list \<Rightarrow> app_user list" where
  "update_where_id f i rows = map (\<lambda>u. if id_pk u = i then f u else u) rows"

definition affected_where_id :: "nat \<Rightarrow> app_user list \<Rightarrow> nat" where
  "affected_where_id i rows = length (filter (\<lambda>u. id_pk u = i) rows)"

text \<open>
  \<^verbatim>\<open>AppUser.findOrCreate({where: {userHash}, defaults})\<close>: the first row with that hash,
  or a new row built from the defaults. The result is the row and whether it was created.
\<close>

definition findOrCreate ::
  "string \<Rightarrow> string \<Rightarrow> string \<Rightarrow> int \<Rightarrow> world \<Rightarrow> (app_user \<times> bool) \<times> world" where
  "findOrCreate h dExtId dFullName nowMs w =
     (case find (\<lambda>u. userHash u = h) (AppUser w) of
        Some u \<Rightarrow> ((u, False), w)
      | None \<Rightarrow>
          (let u = \<lparr>id_pk = nextId w, extId = dExtId, userHash = h,
                    fullName = Some dFullName, lastLogIn = None,
                    createdAt = nowMs, updatedAt = nowMs\<rparr>
           in ((u, True), w\<lparr>AppUser := AppUser w @ [u], nextId := Suc (nextId w)\<rparr>)))"

section \<open>Module functions\<close>

text \<open>\<^verbatim>\<open>getUnixTime(t) = Math.round(t.getTime() / 1000)\<close>; \<^verbatim>\<open>Math.round\<close> rounds a half up.\<close>

definition getUnixTime :: "int \<Rightarrow> int" where
  "getUnixTime t = (t + 500) div 1000"

text \<open>The decimal text of a number, as a template literal prints an integer.\<close>

definition digit_char :: "nat \<Rightarrow> char" where
  "digit_char d = ''0123456789'' ! d"

fun show_nat :: "nat \<Rightarrow> string" where
  "show_nat n =
     (if n < 10 then [digit_char n]
      else show_nat (n div 10) @ [digit_char (n mod 10)])"

declare show_nat.simps [simp del]

definition show_int :: "int \<Rightarrow> string" where
  "show_int i = (if i < 0 then CHR ''-'' # show_nat (nat (- i)) else show_nat (nat i))"

definition generateExtId :: "int \<Rightarrow> string" where
  "generateExtId nowMs = show_int (getUnixTime nowMs)"

section \<open>The session manager\<close>

definition handleValidateClientApp :: "controller \<Rightarrow> string option \<Rightarrow> api_error + unit" where
  "handleValidateClientApp c clientSecret =
     (if clientSecret \<noteq> Some (appSecret c) then Inl RESPONSE_ERROR_UNAUTHORIZED
      else Inr ())"

definition createSessionId :: "controller \<Rightarrow> string \<Rightarrow> int \<Rightarrow> string" where
  "createSessionId c userExtId lastLogInMillis =
     (let raw = userExtId @ ''-'' @ show_int lastLogInMillis
      in hmac c raw (sessionIdSecret c))"

text \<open>
  \<open>timestamp\<close> is the argument of the source; \<open>signMs\<close> is the clock that
  \<^verbatim>\<open>jwt.sign\<close> reads when it stamps \<^verbatim>\<open>iat\<close>.
\<close>

definition newUserSession ::
  "controller \<Rightarrow> nat \<Rightarrow> string \<Rightarrow> int \<Rightarrow> int \<Rightarrow> world \<Rightarrow> user_session \<times> world" where
  "newUserSession c userId userExtId timestamp signMs w =
     (let w' = w\<lparr>AppUser :=
                   update_where_id
                     (\<lambda>u. u\<lparr>lastLogIn := Some (timestamp * 1000),
                            updatedAt := timestamp * 1000\<rparr>)
                     userId (AppUser w)\<rparr>;
          sessionId = createSessionId c userExtId timestamp;
          durationMs = ms c (jwtLifetime c);
          expiredAt = of_int timestamp + of_int durationMs / 1000;
          jwtSession = jwt_sign expiredAt userExtId sessionId (jwtSecret c) signMs
      in (\<lparr>token = jwtSession, expiredAt = expiredAt\<rparr>, w'))"

definition verifyJWT :: "controller \<Rightarrow> int \<Rightarrow> jwt_string option \<Rightarrow> api_error + jwt_payload" where
  "verifyJWT c nowMs tok =
     (case jwt_verify tok (jwtSecret c) nowMs of
        Inl TokenExpiredError \<Rightarrow> Inl ERR_1
      | Inl JsonWebTokenError \<Rightarrow> Inl ERR_2
      | Inr payload \<Rightarrow> Inr payload)"

definition validateUserSession ::
  "controller \<Rightarrow> int \<Rightarrow> world \<Rightarrow> jwt_string option \<Rightarrow> api_error + user_access" where
  "validateUserSession c nowMs w userAccessToken =
     (case verifyJWT c nowMs userAccessToken of
        Inl e \<Rightarrow> Inl e
      | Inr payload \<Rightarrow>
          (case findOne_extId (data_userId payload) (AppUser w) of
             None \<Rightarrow> Inl RESPONSE_ERROR_UNAUTHORIZED
           | Some user \<Rightarrow>
               (let lastLogIn = (case lastLogIn user of
                                   None \<Rightarrow> - 1
                                 | Some t \<Rightarrow> getUnixTime t);
                    currentSessionId = createSessionId c (extId user) lastLogIn
                in if currentSessionId \<noteq> data_sessionId payload
                   then Inl RESPONSE_ERROR_UNAUTHORIZED
                   else Inr \<lparr>ua_id = id_pk user, ua_extId = extId user\<rparr>)))"

definition verifyExchangeToken :: "controller \<Rightarrow> string \<Rightarrow> world \<Rightarrow> (api_error + string) \<times> world" where
  "verifyExchangeToken c exchangeTok w =
     (let w' = w\<lparr>verifyCalls := verifyCalls w @ [exchangeTok]\<rparr>
      in case humanID c exchangeTok of
           VerifierFail \<Rightarrow> (Inl ERR_3, w'\<lparr>logged := logged w' @ [ReceivedErrorResponse]\<rparr>)
         | VerifierOk h \<Rightarrow> (Inr h, w'))"

section \<open>Request handlers and routes\<close>

text \<open>
  A handler takes the clock of the request in milliseconds and the world, and returns
  what the REST wrapper answers (\<open>Inl\<close> a thrown error) with the world it leaves.
  A request reads one clock value: \<^verbatim>\<open>new Date()\<close> in the handler and the clock of
  \<^verbatim>\<open>jwt.sign\<close> a moment later are taken to be the same millisecond. A failure of the
  network call to the verifier is not part of the model.
\<close>

text \<open>
  Modelled from the spec: \<^verbatim>\<open>this.validate({exchangeToken: 'required'}, body)\<close> is a method
  of the missing base controller; a required field that is missing is a
  \<open>ValidationFailed\<close> failure.
\<close>

definition validate_required :: "'a option \<Rightarrow> api_error + 'a" where
  "validate_required field = (case field of None \<Rightarrow> Inl VALIDATION_FAILED | Some v \<Rightarrow> Inr v)"

definition handleLogIn ::
  "controller \<Rightarrow> int \<Rightarrow> string \<Rightarrow> login_body \<Rightarrow> world \<Rightarrow> (api_error + user_session) \<times> world" where
  "handleLogIn c nowMs randomName body w =
     (case validate_required (exchangeToken body) of
        Inl e \<Rightarrow> (Inl e, w)
      | Inr exchangeTok \<Rightarrow>
          (case verifyExchangeToken c exchangeTok w of
             (Inl e, w1) \<Rightarrow> (Inl e, w1)
           | (Inr h, w1) \<Rightarrow>
               (case findOrCreate h (generateExtId nowMs) randomName nowMs w1 of
                  ((user, created), w2) \<Rightarrow>
                    (case newUserSession c (id_pk user) (extId user) (getUnixTime nowMs) nowMs w2 of
                       (session, w3) \<Rightarrow> (Inr session, w3)))))"

definition handleRefreshSession ::
  "controller \<Rightarrow> int \<Rightarrow> user_access \<Rightarrow> world \<Rightarrow> (api_error + user_session) \<times> world" where
  "handleRefreshSession c nowMs user w =
     (case newUserSession c (ua_id user) (ua_extId user) (getUnixTime nowMs) nowMs w of
        (session, w') \<Rightarrow> (Inr session, w'))"

definition handleLogOut ::
  "controller \<Rightarrow> int \<Rightarrow> jwt_string option \<Rightarrow> world \<Rightarrow> (api_error + unit) \<times> world" where
  "handleLogOut c nowMs userAccessToken w =
     (case validateUserSession c nowMs w userAccessToken of
        Inl e \<Rightarrow> (Inr (), w\<lparr>logged := logged w @ [SessionValidationFailed e]\<rparr>)
      | Inr session \<Rightarrow>
          (Inr (),
           w\<lparr>AppUser := update_where_id
                           (\<lambda>u. u\<lparr>lastLogIn := None, updatedAt := nowMs\<rparr>)
                           (ua_id session) (AppUser w),
             logged := logged w @ [UpdateResult (affected_where_id (ua_id session) (AppUser w))]\<rparr>))"

text \<open>
  \<^verbatim>\<open>AppUser.update({fullName: body.fullName}, ...)\<close>: a field of the body that is missing
  is \<^verbatim>\<open>undefined\<close>, and the ORM leaves out of the statement a value that is \<^verbatim>\<open>undefined\<close>.
\<close>

definition handleUpdateProfile ::
  "controller \<Rightarrow> user_access \<Rightarrow> profile_body \<Rightarrow> world \<Rightarrow> (api_error + unit) \<times> world" where
  "handleUpdateProfile c user body w =
     (Inr (),
      w\<lparr>AppUser := update_where_id
                      (\<lambda>u. case body_fullName body of
                              None \<Rightarrow> u
                            | Some n \<Rightarrow> u\<lparr>fullName := Some n\<rparr>)
                      (ua_id user) (AppUser w)\<rparr>)"

text \<open>\<^verbatim>\<open>router.post('/users/log-in', handleValidateClientApp, handleLogIn)\<close>\<close>

definition route_logIn ::
  "controller \<Rightarrow> int \<Rightarrow> string \<Rightarrow> string option \<Rightarrow> login_body \<Rightarrow> world
     \<Rightarrow> (api_error + user_session) \<times> world" where
  "route_logIn c nowMs randomName clientSecret body w =
     (case handleValidateClientApp c clientSecret of
        Inl e \<Rightarrow> (Inl e, w)
      | Inr _ \<Rightarrow> handleLogIn c nowMs randomName body w)"

text \<open>\<^verbatim>\<open>router.put('/users/refresh-session', handleValidateUserSession, handleRefreshSession)\<close>\<close>

definition route_refreshSession ::
  "controller \<Rightarrow> int \<Rightarrow> jwt_string option \<Rightarrow> world \<Rightarrow> (api_error + user_session) \<times> world" where
  "route_refreshSession c nowMs userAccessToken w =
     (case validateUserSession c nowMs w userAccessToken of
        Inl e \<Rightarrow> (Inl e, w)
      | Inr user \<Rightarrow> handleRefreshSession c nowMs user w)"

text \<open>\<^verbatim>\<open>router.put('/users/profile', handleValidateUserSession, handleUpdateProfile)\<close>\<close>

definition route_updateProfile ::
  "controller \<Rightarrow> int \<Rightarrow> jwt_string option \<Rightarrow> profile_body \<Rightarrow> world \<Rightarrow> (api_error + unit) \<times> world" where
  "route_updateProfile c nowMs userAccessToken body w =
     (case validateUserSession c nowMs w userAccessToken of
        Inl e \<Rightarrow> (Inl e, w)
      | Inr user \<Rightarrow> handleUpdateProfile c user body w)"

text \<open>\<^verbatim>\<open>router.put('/users/log-out', handleLogOut)\<close>\<close>

definition route_logOut ::
  "controller \<Rightarrow> int \<Rightarrow> jwt_string option \<Rightarrow> world \<Rightarrow> (api_error + unit) \<times> world" where
  "route_logOut c nowMs userAccessToken w = handleLogOut c nowMs userAccessToken w"

text \<open>
  The requests of the router that change the world, with the clock at which each is
  served, and the world one request leaves.
\<close>

datatype request =
    LogIn int string "string option" login_body
  | RefreshSession int "jwt_string option"
  | UpdateProfile int "jwt_string option" profile_body
  | LogOut int "jwt_string option"

fun serve :: "controller \<Rightarrow> request \<Rightarrow> world \<Rightarrow> world" where
  "serve c (LogIn nowMs randomName clientSecret body) w =
     snd (route_logIn c nowMs randomName clientSecret body w)"
| "serve c (RefreshSession nowMs userAccessToken) w =
     snd (route_refreshSession c nowMs userAccessToken w)"
| "serve c (UpdateProfile nowMs userAccessToken body) w =
     snd (route_updateProfile c nowMs userAccessToken body w)"
| "serve c (LogOut nowMs userAccessToken) w =
     snd (route_logOut c nowMs userAccessToken w)"

section \<open>Observations used to state the properties\<close>

text \<open>
  The record a handle determines, as the pair of its internal and external id: the row
  that \<^verbatim>\<open>findOrCreate({where: {userHash}})\<close> would find.
\<close>

definition resolveHandle :: "string \<Rightarrow> world \<Rightarrow> (nat \<times> string) option" where
  "resolveHandle h w = map_option (\<lambda>u. (id_pk u, extId u)) (find (\<lambda>u. userHash u = h) (AppUser w))"

text \<open>The payload a token carries, read without verifying it (\<^verbatim>\<open>jwt.decode\<close>).\<close>

fun payload_of :: "jwt_string \<Rightarrow> jwt_payload option" where
  "payload_of (Malformed x) = None"
| "payload_of (Signed p k) = Some p"

text \<open>The external id carried by the token of a login answer.\<close>

definition session_userId :: "api_error + user_session \<Rightarrow> string option" where
  "session_userId r =
     (case r of
        Inl e \<Rightarrow> None
      | Inr s \<Rightarrow> map_option data_userId (payload_of (token s)))"

text \<open>
  The token of a login or refresh answer, as the client presents it afterwards in the
  \<^verbatim>\<open>userAccessToken\<close> header; an answer that is an error carries none.
\<close>

definition session_token :: "api_error + user_session \<Rightarrow> jwt_string option" where
  "session_token r = (case r of Inl e \<Rightarrow> None | Inr s \<Rightarrow> Some (token s))"

text \<open>The columns of the table that identify a user, row by row.\<close>

definition identities :: "world \<Rightarrow> (nat \<times> string \<times> string) list" where
  "identities w = map (\<lambda>u. (id_pk u, extId u, userHash u)) (AppUser w)"

section \<open>A concrete deployment, for evaluation\<close>

text \<open>
  A configuration on which the definitions can be run. Its \<open>hmac\<close> is a stand-in that
  keeps both of its arguments apart, so that it never collides; its lifetime is one hour.
\<close>

definition demo :: controller where
  "demo = \<lparr>appSecret = ''app-secret'', sessionIdSecret = ''sid-secret'',
           jwtSecret = ''jwt-secret'', jwtLifetime = ''1h'',
           hmac = (\<lambda>raw key. key @ '':'' @ raw),
           ms = (\<lambda>s. if s = ''1h'' then 3600000 else 0),
           humanID = (\<lambda>t. if t = ''tok-A'' then VerifierOk ''h1''
                           else if t = ''tok-A2'' then VerifierOk ''h1''
                           else if t = ''tok-B'' then VerifierOk ''h2''
                           else VerifierFail)\<rparr>"

definition empty_world :: world where
  "empty_world = \<lparr>AppUser = [], nextId = 1, verifyCalls = [], logged = []\<rparr>"

text \<open>
  The state after the first login of the handle \<open>h1\<close> into the empty world, at the
  clock 1589009541600 ms: the row it created, the token it returned and the world it left.
\<close>

definition alice_row :: app_user where
  "alice_row = \<lparr>id_pk = 1, extId = ''1589009542'', userHash = ''h1'',
                fullName = Some ''Jolly Bell'', lastLogIn = Some 1589009542000,
                createdAt = 1589009541600, updatedAt = 1589009542000\<rparr>"

definition alice_payload :: jwt_payload where
  "alice_payload = \<lparr>jwt_iat = 1589009541, jwt_exp = 1589013142,
                    data_userId = ''1589009542'',
                    data_sessionId = ''sid-secret:1589009542-1589009542''\<rparr>"

definition alice_token :: jwt_string where
  "alice_token = Signed alice_payload ''jwt-secret''"

definition alice_world :: world where
  "alice_world = \<lparr>AppUser = [alice_row], nextId = 2, verifyCalls = [''tok-A''], logged = []\<rparr>"

text \<open>
  The world after a first login of the handle \<open>h2\<close> at the clock 1589009541900 ms, in
  the same rounded second: its row carries the same external id.
\<close>

definition bob_row :: app_user where
  "bob_row = \<lparr>id_pk = 2, extId = ''1589009542'', userHash = ''h2'',
              fullName = Some ''Busy Hopper'', lastLogIn = Some 1589009542000,
              createdAt = 1589009541900, updatedAt = 1589009542000\<rparr>"

definition two_user_world :: world where
  "two_user_world = \<lparr>AppUser = [alice_row, bob_row], nextId = 3,
                     verifyCalls = [''tok-A'', ''tok-B''], logged = []\<rparr>"

text \<open>The token a refresh at the clock 1589009542300 ms returns for that user.\<close>

definition refreshed_token :: jwt_string where
  "refreshed_token = Signed (alice_payload\<lparr>jwt_iat := 1589009542\<rparr>) ''jwt-secret''"

text \<open>The payload of \<open>alice_token\<close> under a signature made with another secret.\<close>

definition forged_token :: jwt_string where
  "forged_token = Signed alice_payload ''guess''"

section \<open>Helper facts\<close>

lemmas eval_defs =
  demo_def empty_world_def alice_row_def alice_payload_def alice_token_def alice_world_def
  refreshed_token_def forged_token_def bob_row_def two_user_world_def clockTimestamp_def getUnixTime_def digit_char_def
  show_nat.simps show_int_def generateExtId_def createSessionId_def jwt_sign_def
  findOne_extId_def update_where_id_def affected_where_id_def findOrCreate_def
  handleValidateClientApp_def newUserSession_def verifyJWT_def validateUserSession_def
  verifyExchangeToken_def validate_required_def handleLogIn_def handleRefreshSession_def
  handleLogOut_def handleUpdateProfile_def route_logIn_def route_refreshSession_def
  route_updateProfile_def route_logOut_def session_userId_def resolveHandle_def Let_def

lemma getUnixTime_seconds: "getUnixTime (t * 1000) = t"
  by (simp add: getUnixTime_def)

lemma find_map_preserve:
  "(\<And>u. P (g u) = P u) \<Longrightarrow> find P (map g xs) = map_option g (find P xs)"
  by (induction xs) simp_all

lemma findOne_extId_update:
  assumes "\<And>u. extId (f u) = extId u"
  shows "findOne_extId e (update_where_id f i rows) =
         map_option (\<lambda>u. if id_pk u = i then f u else u) (findOne_extId e rows)"
  unfolding findOne_extId_def update_where_id_def
  by (rule find_map_preserve) (simp add: assms)

lemma find_userHash_update:
  assumes "\<And>u. userHash (f u) = userHash u"
  shows "find (\<lambda>u. userHash u = h) (update_where_id f i rows) =
         map_option (\<lambda>u. if id_pk u = i then f u else u) (find (\<lambda>u. userHash u = h) rows)"
  unfolding update_where_id_def
  by (rule find_map_preserve) (simp add: assms)

lemma verifyJWT_forged:
  "\<not> signatureVerifies tok (jwtSecret c) \<Longrightarrow> verifyJWT c nowMs tok = Inl ERR_2"
  by (cases "(tok, jwtSecret c)" rule: signatureVerifies.cases) (simp_all add: verifyJWT_def)

lemma findOne_extId_Some: "findOne_extId e rows = Some u \<Longrightarrow> extId u = e"
  by (auto simp: findOne_extId_def find_Some_iff)

lemma findOne_after_newUserSession:
  assumes "findOne_extId e (AppUser w) = Some u" and "id_pk u = i"
  shows "findOne_extId e (AppUser (snd (newUserSession c i e' t signMs w))) =
         Some (u\<lparr>lastLogIn := Some (t * 1000), updatedAt := t * 1000\<rparr>)"
  using assms by (simp add: newUserSession_def Let_def findOne_extId_update)

lemma token_newUserSession:
  "token (fst (newUserSession c i e t signMs w)) =
     Signed \<lparr>jwt_iat = clockTimestamp signMs,
             jwt_exp = of_int t + of_int (ms c (jwtLifetime c)) / 1000,
             data_userId = e, data_sessionId = createSessionId c e t\<rparr> (jwtSecret c)"
  by (simp add: newUserSession_def Let_def jwt_sign_def)

lemma validate_minted:
  assumes "findOne_extId e (AppUser w) = Some u"
  shows "validateUserSession c nowMs w (Some (token (fst (newUserSession c i e t signMs wM)))) =
           (if rat_of_int (clockTimestamp nowMs) \<ge> of_int t + of_int (ms c (jwtLifetime c)) / 1000
            then Inl ERR_1
            else if createSessionId c e (case lastLogIn u of None \<Rightarrow> - 1 | Some l \<Rightarrow> getUnixTime l)
                      \<noteq> createSessionId c e t
            then Inl RESPONSE_ERROR_UNAUTHORIZED
            else Inr \<lparr>ua_id = id_pk u, ua_extId = e\<rparr>)"
  using assms findOne_extId_Some[OF assms]
  by (simp add: validateUserSession_def verifyJWT_def token_newUserSession Let_def)

lemma validate_Inr_row:
  assumes "validateUserSession c nowMs w tok = Inr s"
  shows "\<exists>u. findOne_extId (ua_extId s) (AppUser w) = Some u \<and> id_pk u = ua_id s"
proof -
  from assms obtain p where p: "verifyJWT c nowMs tok = Inr p"
    by (auto simp: validateUserSession_def split: sum.splits)
  from assms p obtain u where u: "findOne_extId (data_userId p) (AppUser w) = Some u"
    by (auto simp: validateUserSession_def split: option.splits)
  from assms p u have s: "s = \<lparr>ua_id = id_pk u, ua_extId = extId u\<rparr>"
    by (auto simp: validateUserSession_def Let_def split: if_splits)
  from u have "extId u = data_userId p" by (rule findOne_extId_Some)
  with u s show ?thesis by simp
qed

lemma find_snoc:
  "find P (xs @ [x]) = (case find P xs of None \<Rightarrow> (if P x then Some x else None) | Some y \<Rightarrow> Some y)"
  by (induction xs) simp_all

lemma handleLogIn_verified:
  assumes "exchangeToken body = Some x" and "humanID c x = VerifierOk h"
  shows "handleLogIn c nowMs name body w =
     (case findOrCreate h (generateExtId nowMs) name nowMs (w\<lparr>verifyCalls := verifyCalls w @ [x]\<rparr>) of
        ((user, created), w2) \<Rightarrow>
          (case newUserSession c (id_pk user) (extId user) (getUnixTime nowMs) nowMs w2 of
             (session, w3) \<Rightarrow> (Inr session, w3)))"
  using assms
  by (simp add: handleLogIn_def validate_required_def verifyExchangeToken_def Let_def)

lemma findOrCreate_resolves:
  "find (\<lambda>u. userHash u = h) (AppUser (snd (findOrCreate h d n nowMs w)))
     = Some (fst (fst (findOrCreate h d n nowMs w)))"
  by (simp add: findOrCreate_def Let_def find_snoc split: option.splits)

lemma AppUser_newUserSession:
  "AppUser (snd (newUserSession c i e t s w)) =
     update_where_id (\<lambda>u. u\<lparr>lastLogIn := Some (t * 1000), updatedAt := t * 1000\<rparr>) i (AppUser w)"
  by (simp add: newUserSession_def Let_def)

lemma handleLogIn_row:
  assumes "exchangeToken body = Some x" and "humanID c x = VerifierOk h"
  shows "\<exists>u. find (\<lambda>u. userHash u = h) (AppUser (snd (handleLogIn c nowMs name body w)))
               = Some (u\<lparr>lastLogIn := Some (getUnixTime nowMs * 1000), updatedAt := getUnixTime nowMs * 1000\<rparr>)
           \<and> fst (fst (findOrCreate h (generateExtId nowMs) name nowMs (w\<lparr>verifyCalls := verifyCalls w @ [x]\<rparr>))) = u
           \<and> session_userId (fst (handleLogIn c nowMs name body w)) = Some (extId u)
           \<and> length (AppUser (snd (handleLogIn c nowMs name body w)))
               = length (AppUser (snd (findOrCreate h (generateExtId nowMs) name nowMs (w\<lparr>verifyCalls := verifyCalls w @ [x]\<rparr>))))"
proof -
  let ?w0 = "w\<lparr>verifyCalls := verifyCalls w @ [x]\<rparr>"
  let ?foc = "findOrCreate h (generateExtId nowMs) name nowMs ?w0"
  obtain u cr w2 where foc: "?foc = ((u, cr), w2)" by (metis prod.collapse)
  have row: "find (\<lambda>u. userHash u = h) (AppUser w2) = Some u"
    using findOrCreate_resolves[of h "generateExtId nowMs" name nowMs ?w0] foc by simp
  obtain s w3 where nus: "newUserSession c (id_pk u) (extId u) (getUnixTime nowMs) nowMs w2 = (s, w3)"
    by (metis prod.collapse)
  have L: "handleLogIn c nowMs name body w = (Inr s, w3)"
    using assms foc nus by (simp add: handleLogIn_verified)
  have w3: "AppUser w3 = update_where_id (\<lambda>u. u\<lparr>lastLogIn := Some (getUnixTime nowMs * 1000), updatedAt := getUnixTime nowMs * 1000\<rparr>) (id_pk u) (AppUser w2)"
    using AppUser_newUserSession[of c "id_pk u" "extId u" "getUnixTime nowMs" nowMs w2] nus by simp
  have tok: "token s = token (fst (newUserSession c (id_pk u) (extId u) (getUnixTime nowMs) nowMs w2))"
    using nus by simp
  have len: "length (AppUser w3) = length (AppUser w2)"
    by (simp add: w3 update_where_id_def)
  show ?thesis
    using L foc row len by (simp add: w3 find_userHash_update session_userId_def tok token_newUserSession)
qed

lemma length_findOrCreate:
  "length (AppUser (snd (findOrCreate h d n nowMs w))) =
     (case find (\<lambda>u. userHash u = h) (AppUser w) of
        None \<Rightarrow> Suc (length (AppUser w)) | Some u \<Rightarrow> length (AppUser w))"
  by (simp add: findOrCreate_def Let_def split: option.splits)

lemma created_findOrCreate:
  "snd (fst (findOrCreate h d n nowMs w)) = (find (\<lambda>u. userHash u = h) (AppUser w) = None)"
  by (simp add: findOrCreate_def Let_def split: option.splits)

lemma first_login_reaches_alice_world:
  "route_logIn demo 1589009541600 ''Jolly Bell'' (Some ''app-secret'')
     \<lparr>exchangeToken = Some ''tok-A''\<rparr> empty_world
   = (Inr \<lparr>token = alice_token, expiredAt = 1589013142\<rparr>, alice_world)"
  by (simp add: eval_defs)

lemma identities_update:
  assumes "\<And>u. id_pk (f u) = id_pk u \<and> extId (f u) = extId u \<and> userHash (f u) = userHash u"
  shows "identities (w\<lparr>AppUser := update_where_id f i (AppUser w)\<rparr>) = identities w"
  by (simp add: identities_def update_where_id_def assms)

lemma identities_newUserSession:
  "identities (snd (newUserSession c i e t s w)) = identities w"
  by (simp add: identities_def AppUser_newUserSession update_where_id_def)

lemma identities_findOrCreate:
  "\<exists>ys. identities (snd (findOrCreate h d n nowMs w)) = identities w @ ys"
  by (simp add: findOrCreate_def identities_def Let_def split: option.splits)

lemma identities_handleLogIn:
  "\<exists>ys. identities (snd (handleLogIn c nowMs name body w)) = identities w @ ys"
proof (cases "exchangeToken body")
  case None
  then show ?thesis by (simp add: handleLogIn_def validate_required_def)
next
  case (Some x)
  show ?thesis
  proof (cases "humanID c x")
    case VerifierFail
    with Some show ?thesis
      by (simp add: handleLogIn_def validate_required_def verifyExchangeToken_def identities_def Let_def)
  next
    case (VerifierOk h)
    let ?w0 = "w\<lparr>verifyCalls := verifyCalls w @ [x]\<rparr>"
    obtain u cr w2 where foc: "findOrCreate h (generateExtId nowMs) name nowMs ?w0 = ((u, cr), w2)"
      by (metis prod.collapse)
    from identities_findOrCreate[of h "generateExtId nowMs" name nowMs ?w0] foc
    obtain ys where ys: "identities w2 = identities ?w0 @ ys" by auto
    have w0: "identities ?w0 = identities w" by (simp add: identities_def)
    have "snd (handleLogIn c nowMs name body w)
          = snd (newUserSession c (id_pk u) (extId u) (getUnixTime nowMs) nowMs w2)"
      using Some VerifierOk foc by (simp add: handleLogIn_verified split: prod.splits)
    then show ?thesis using ys w0 by (simp add: identities_newUserSession)
  qed
qed

lemma identities_route_logIn:
  "\<exists>ys. identities (snd (route_logIn c nowMs randomName clientSecret body w)) = identities w @ ys"
proof (cases "handleValidateClientApp c clientSecret")
  case (Inl e)
  then show ?thesis by (simp add: route_logIn_def)
next
  case (Inr u)
  then show ?thesis
    using identities_handleLogIn[of c nowMs randomName body w] by (simp add: route_logIn_def)
qed

lemma identities_route_refreshSession:
  "identities (snd (route_refreshSession c nowMs tok w)) = identities w"
proof (cases "validateUserSession c nowMs w tok")
  case (Inl e)
  then show ?thesis by (simp add: route_refreshSession_def)
next
  case (Inr user)
  have "snd (handleRefreshSession c nowMs user w)
        = snd (newUserSession c (ua_id user) (ua_extId user) (getUnixTime nowMs) nowMs w)"
    by (simp add: handleRefreshSession_def split: prod.splits)
  with Inr show ?thesis by (simp add: route_refreshSession_def identities_newUserSession)
qed

lemma identities_route_updateProfile:
  "identities (snd (route_updateProfile c nowMs tok body w)) = identities w"
proof (cases "validateUserSession c nowMs w tok")
  case (Inl e)
  then show ?thesis by (simp add: route_updateProfile_def)
next
  case (Inr user)
  have "identities (w\<lparr>AppUser := update_where_id
          (\<lambda>u. case body_fullName body of None \<Rightarrow> u | Some n \<Rightarrow> u\<lparr>fullName := Some n\<rparr>)
          (ua_id user) (AppUser w)\<rparr>) = identities w"
    by (rule identities_update) (simp split: option.splits)
  with Inr show ?thesis by (simp add: route_updateProfile_def handleUpdateProfile_def)
qed

lemma identities_route_logOut:
  "identities (snd (route_logOut c nowMs tok w)) = identities w"
proof (cases "validateUserSession c nowMs w tok")
  case (Inl e)
  then show ?thesis by (simp add: route_logOut_def handleLogOut_def identities_def)
next
  case (Inr session)
  then show ?thesis
    by (simp add: route_logOut_def handleLogOut_def identities_def update_where_id_def)
qed

lemma identities_serve: "\<exists>ys. identities (serve c r w) = identities w @ ys"
proof (cases r)
  case (LogIn nowMs randomName clientSecret body)
  then show ?thesis using identities_route_logIn by simp
next
  case (RefreshSession nowMs tok)
  then show ?thesis by (simp add: identities_route_refreshSession)
next
  case (UpdateProfile nowMs tok body)
  then show ?thesis by (simp add: identities_route_updateProfile)
next
  case (LogOut nowMs tok)
  then show ?thesis by (simp add: identities_route_logOut)
qed

lemma identities_fold_serve: "\<exists>ys. identities (fold (serve c) rs w) = identities w @ ys"
proof (induction rs arbitrary: w)
  case Nil
  then show ?case by simp
next
  case (Cons r rs)
  from identities_serve[of c r w] obtain ys where a: "identities (serve c r w) = identities w @ ys"
    by blast
  from Cons[of "serve c r w"] obtain zs where
    b: "identities (fold (serve c) rs (serve c r w)) = identities (serve c r w) @ zs"
    by blast
  show ?case using a b by simp
qed

lemma find_map_comp: "find P (map f xs) = map_option f (find (\<lambda>x. P (f x)) xs)"
  by (induction xs) simp_all

lemma find_append_Some: "find P xs = Some x \<Longrightarrow> find P (xs @ ys) = Some x"
  by (induction xs) (simp_all split: if_splits)

lemma resolveHandle_identities:
  "resolveHandle h w = map_option (\<lambda>(i, e, k). (i, e)) (find (\<lambda>(i, e, k). k = h) (identities w))"
  by (simp add: resolveHandle_def identities_def find_map_comp option.map_comp comp_def)

lemma resolveHandle_extends:
  assumes "resolveHandle h w \<noteq> None" and "identities w' = identities w @ ys"
  shows "resolveHandle h w' = resolveHandle h w"
proof -
  from assms(1) obtain r where r: "find (\<lambda>(i, e, k). k = h) (identities w) = Some r"
    by (auto simp: resolveHandle_identities)
  then have "find (\<lambda>(i, e, k). k = h) (identities w') = Some r"
    using assms(2) by (simp add: find_append_Some)
  with r show ?thesis by (simp add: resolveHandle_identities)
qed

lemma handleLogIn_resolves:
  assumes "exchangeToken body = Some x" and "humanID c x = VerifierOk h"
  shows "resolveHandle h (snd (handleLogIn c nowMs name body w)) \<noteq> None"
    and "session_userId (fst (handleLogIn c nowMs name body w))
         = map_option snd (resolveHandle h (snd (handleLogIn c nowMs name body w)))"
  using handleLogIn_row[OF assms, of nowMs name w]
  by (auto simp: resolveHandle_def)

lemma findOrCreate_known:
  assumes "resolveHandle h w \<noteq> None"
  shows "\<not> snd (fst (findOrCreate h d n nowMs w))"
    and "length (AppUser (snd (findOrCreate h d n nowMs w))) = length (AppUser w)"
  using assms by (auto simp: resolveHandle_def created_findOrCreate length_findOrCreate)

lemma resolveHandle_verifyCalls:
  "resolveHandle h (w\<lparr>verifyCalls := v\<rparr>) = resolveHandle h w"
  by (simp add: resolveHandle_def)

lemma session_token_Inr: "session_token (Inr s) = Some (token s)"
  by (simp add: session_token_def)

lemma route_logIn_good_secret:
  "route_logIn c nowMs name (Some (appSecret c)) body w = handleLogIn c nowMs name body w"
  by (simp add: route_logIn_def handleValidateClientApp_def)

lemma validate_after_mint:
  assumes "findOne_extId e (AppUser w) = Some u" and "id_pk u = i"
  shows "validateUserSession c nowV (snd (newUserSession c i e tB sB w))
           (Some (token (fst (newUserSession c j e tA sA wM))))
         = (if rat_of_int (clockTimestamp nowV) \<ge> of_int tA + of_int (ms c (jwtLifetime c)) / 1000
            then Inl ERR_1
            else if createSessionId c e tB \<noteq> createSessionId c e tA
            then Inl RESPONSE_ERROR_UNAUTHORIZED
            else Inr \<lparr>ua_id = i, ua_extId = e\<rparr>)"
proof -
  have row: "findOne_extId e (AppUser (snd (newUserSession c i e tB sB w)))
             = Some (u\<lparr>lastLogIn := Some (tB * 1000), updatedAt := tB * 1000\<rparr>)"
    using assms by (rule findOne_after_newUserSession)
  show ?thesis
    using assms(2) by (simp add: validate_minted[OF row] getUnixTime_seconds)
qed

lemma handleLogIn_session:
  assumes "exchangeToken body = Some x" and "humanID c x = VerifierOk h"
    and "resolveHandle h (snd (handleLogIn c nowMs name body w)) = Some (i, e)"
  shows "session_token (fst (handleLogIn c nowMs name body w))
         = Some (token (fst (newUserSession c j e (getUnixTime nowMs) nowMs wM)))"
proof -
  let ?w0 = "w\<lparr>verifyCalls := verifyCalls w @ [x]\<rparr>"
  obtain u cr w2 where foc: "findOrCreate h (generateExtId nowMs) name nowMs ?w0 = ((u, cr), w2)"
    by (metis prod.collapse)
  obtain s w3 where nus: "newUserSession c (id_pk u) (extId u) (getUnixTime nowMs) nowMs w2 = (s, w3)"
    by (metis prod.collapse)
  have L: "handleLogIn c nowMs name body w = (Inr s, w3)"
    using assms(1,2) foc nus by (simp add: handleLogIn_verified)
  have tok: "token s = token (fst (newUserSession c (id_pk u) (extId u) (getUnixTime nowMs) nowMs w2))"
    using nus by simp
  from handleLogIn_row[OF assms(1,2), of nowMs name w] foc
  have "find (\<lambda>u. userHash u = h) (AppUser (snd (handleLogIn c nowMs name body w)))
        = Some (u\<lparr>lastLogIn := Some (getUnixTime nowMs * 1000), updatedAt := getUnixTime nowMs * 1000\<rparr>)"
    by simp
  with assms(3) have e: "extId u = e" by (simp add: resolveHandle_def)
  show ?thesis
    by (simp add: L session_token_def tok token_newUserSession e)
qed

lemma handleLogIn_known:
  assumes "exchangeToken body = Some x" and "humanID c x = VerifierOk h"
    and "resolveHandle h w = Some (i, e)"
  shows "handleLogIn c nowMs name body w
         = (Inr (fst (newUserSession c i e (getUnixTime nowMs) nowMs (w\<lparr>verifyCalls := verifyCalls w @ [x]\<rparr>))),
            snd (newUserSession c i e (getUnixTime nowMs) nowMs (w\<lparr>verifyCalls := verifyCalls w @ [x]\<rparr>)))"
proof -
  from assms(3) obtain u where u: "find (\<lambda>u. userHash u = h) (AppUser w) = Some u"
    and i: "id_pk u = i" and e: "extId u = e"
    by (auto simp: resolveHandle_def)
  have foc: "findOrCreate h (generateExtId nowMs) name nowMs (w\<lparr>verifyCalls := verifyCalls w @ [x]\<rparr>)
             = ((u, False), w\<lparr>verifyCalls := verifyCalls w @ [x]\<rparr>)"
    using u by (simp add: findOrCreate_def)
  show ?thesis
    using assms(1,2) by (simp add: handleLogIn_verified foc i e split: prod.splits)
qed

lemma findOne_identities:
  "map_option id_pk (findOne_extId e (AppUser w))
   = map_option fst (find (\<lambda>(i, e', k). e' = e) (identities w))"
  by (simp add: findOne_extId_def identities_def find_map_comp option.map_comp comp_def)

lemma findOne_id_extends:
  assumes "map_option id_pk (findOne_extId e (AppUser w)) = Some i"
    and "identities w' = identities w @ ys"
  shows "map_option id_pk (findOne_extId e (AppUser w')) = Some i"
proof -
  from assms(1) obtain r where r: "find (\<lambda>(i, e', k). e' = e) (identities w) = Some r"
    and "fst r = i"
    by (auto simp: findOne_identities)
  then show ?thesis
    using assms(2) by (simp add: findOne_identities find_append_Some)
qed

lemma route_refreshSession_valid:
  assumes "validateUserSession c nowMs w tok = Inr \<lparr>ua_id = i, ua_extId = e\<rparr>"
  shows "route_refreshSession c nowMs tok w
         = (Inr (fst (newUserSession c i e (getUnixTime nowMs) nowMs w)),
            snd (newUserSession c i e (getUnixTime nowMs) nowMs w))"
  using assms by (simp add: route_refreshSession_def handleRefreshSession_def split: prod.splits)

section \<open>The properties\<close>

text \<open>
  Claim C1, single active session. A login for the handle \<open>h\<close> returns the token T1;
  the handle resolves to the internal id \<open>i\<close> and the external id \<open>e\<close>, and \<open>e\<close>
  resolves to that user's row. Any requests are served after it. Then a second session is
  minted for the same user at the clock \<open>nowB\<close>, either by a refresh presented with a
  token that validates as this user or by a second login whose exchange token the
  verifier maps to \<open>h\<close>, and returns the token T2. In the world this leaves, T1 fails
  with \<^verbatim>\<open>ERR_1\<close> once its expiry has passed; before that it fails with the unauthorized
  error of the fingerprint comparison exactly when the fingerprints of the two rounded
  seconds differ, and still validates when they are equal, as they are when both sessions
  are minted in one rounded second. T2, presented before its expiry, validates and gives
  the user's internal and external id. The counterexample to the claim as stated is a
  login at 1589009541600 ms followed by a refresh at 1589009542300 ms, both of which
  \<^verbatim>\<open>getUnixTime\<close> rounds to the second 1589009542.
\<close>

theorem rotated_session:
  assumes "exchangeToken bodyA = Some xA" and "humanID c xA = VerifierOk h"
    and "resolveHandle h (snd (route_logIn c nowA nameA (Some (appSecret c)) bodyA w)) = Some (i, e)"
    and "map_option id_pk (findOne_extId e
           (AppUser (snd (route_logIn c nowA nameA (Some (appSecret c)) bodyA w)))) = Some i"
  shows "let LA = route_logIn c nowA nameA (Some (appSecret c)) bodyA w;
             T1 = session_token (fst LA);
             w' = fold (serve c) between (snd LA);
             RB = route_refreshSession c nowB tokR w';
             LB = route_logIn c nowB nameB (Some (appSecret c)) bodyB w';
             ttl = rat_of_int (ms c (jwtLifetime c)) / 1000;
             old = (if of_int (clockTimestamp nowV) \<ge> of_int (getUnixTime nowA) + ttl
                    then Inl ERR_1
                    else if createSessionId c e (getUnixTime nowB) \<noteq> createSessionId c e (getUnixTime nowA)
                    then Inl RESPONSE_ERROR_UNAUTHORIZED
                    else Inr \<lparr>ua_id = i, ua_extId = e\<rparr>);
             new = (if of_int (clockTimestamp nowV) \<ge> of_int (getUnixTime nowB) + ttl
                    then Inl ERR_1
                    else Inr \<lparr>ua_id = i, ua_extId = e\<rparr>)
         in (validateUserSession c nowB w' tokR = Inr \<lparr>ua_id = i, ua_extId = e\<rparr> \<longrightarrow>
               validateUserSession c nowV (snd RB) T1 = old
             \<and> validateUserSession c nowV (snd RB) (session_token (fst RB)) = new)
          \<and> (exchangeToken bodyB = Some xB \<and> humanID c xB = VerifierOk h \<longrightarrow>
               validateUserSession c nowV (snd LB) T1 = old
             \<and> validateUserSession c nowV (snd LB) (session_token (fst LB)) = new)
          \<and> isUnauthorized ERR_1 \<and> isUnauthorized RESPONSE_ERROR_UNAUTHORIZED"
proof -
  let ?LA = "handleLogIn c nowA nameA bodyA w"
  let ?w' = "fold (serve c) between (snd ?LA)"
  let ?tA = "getUnixTime nowA"
  let ?tB = "getUnixTime nowB"
  let ?ttl = "rat_of_int (ms c (jwtLifetime c)) / 1000"
  let ?old = "(if of_int (clockTimestamp nowV) \<ge> of_int ?tA + ?ttl
                    then Inl ERR_1
                    else if createSessionId c e ?tB \<noteq> createSessionId c e ?tA
                    then Inl RESPONSE_ERROR_UNAUTHORIZED
                    else Inr \<lparr>ua_id = i, ua_extId = e\<rparr>)"
  let ?new = "(if of_int (clockTimestamp nowV) \<ge> of_int ?tB + ?ttl
                    then Inl ERR_1
                    else Inr \<lparr>ua_id = i, ua_extId = e\<rparr>)"
  have R: "resolveHandle h (snd ?LA) = Some (i, e)"
    and X: "map_option id_pk (findOne_extId e (AppUser (snd ?LA))) = Some i"
    using assms(3,4) by (simp_all add: route_logIn_good_secret)
  have T1: "session_token (fst ?LA) = Some (token (fst (newUserSession c i e ?tA nowA w)))"
    using assms(1,2) R by (rule handleLogIn_session)
  from identities_fold_serve[of c between "snd ?LA"]
  obtain ys where ys: "identities ?w' = identities (snd ?LA) @ ys" by (elim exE)
  have refresh: "validateUserSession c nowV (snd (route_refreshSession c nowB tokR ?w')) (session_token (fst ?LA)) = ?old
      \<and> validateUserSession c nowV (snd (route_refreshSession c nowB tokR ?w'))
           (session_token (fst (route_refreshSession c nowB tokR ?w'))) = ?new"
    if v: "validateUserSession c nowB ?w' tokR = Inr \<lparr>ua_id = i, ua_extId = e\<rparr>"
  proof -
    from validate_Inr_row[OF v] obtain u where u: "findOne_extId e (AppUser ?w') = Some u"
      and ui: "id_pk u = i" by auto
    show ?thesis
      by (simp add: route_refreshSession_valid[OF v] T1 session_token_Inr
            validate_after_mint[OF u ui])
  qed
  have login: "validateUserSession c nowV (snd (handleLogIn c nowB nameB bodyB ?w')) (session_token (fst ?LA)) = ?old
      \<and> validateUserSession c nowV (snd (handleLogIn c nowB nameB bodyB ?w'))
           (session_token (fst (handleLogIn c nowB nameB bodyB ?w'))) = ?new"
    if b: "exchangeToken bodyB = Some xB" and hb: "humanID c xB = VerifierOk h"
  proof -
    let ?w0 = "?w'\<lparr>verifyCalls := verifyCalls ?w' @ [xB]\<rparr>"
    have k: "resolveHandle h (snd ?LA) \<noteq> None" using R by simp
    have R': "resolveHandle h ?w' = Some (i, e)"
      using resolveHandle_extends[OF k ys] R by simp
    have "map_option id_pk (findOne_extId e (AppUser ?w')) = Some i"
      using X ys by (rule findOne_id_extends)
    then obtain u where u: "findOne_extId e (AppUser ?w0) = Some u" and ui: "id_pk u = i"
      by auto
    show ?thesis
      by (simp add: handleLogIn_known[OF b hb R'] T1 session_token_Inr
            validate_after_mint[OF u ui])
  qed
  show ?thesis
    using refresh login by (simp add: Let_def route_logIn_good_secret)
qed

theorem rotated_session_witness:
  "exchangeToken \<lparr>exchangeToken = Some ''tok-A''\<rparr> = Some ''tok-A''
   \<and> humanID demo ''tok-A'' = VerifierOk ''h1''
   \<and> route_logIn demo 1589009541600 ''Jolly Bell'' (Some (appSecret demo))
        \<lparr>exchangeToken = Some ''tok-A''\<rparr> empty_world
      = (Inr \<lparr>token = alice_token, expiredAt = 1589013142\<rparr>, alice_world)
   \<and> resolveHandle ''h1'' alice_world = Some (1, ''1589009542'')
   \<and> map_option id_pk (findOne_extId ''1589009542'' (AppUser alice_world)) = Some 1
   \<and> validateUserSession demo 1589009600200
        (fold (serve demo) [UpdateProfile 1589009550000 (Some alice_token) \<lparr>body_fullName = Some ''Alice''\<rparr>]
           alice_world) (Some alice_token)
      = Inr \<lparr>ua_id = 1, ua_extId = ''1589009542''\<rparr>
   \<and> exchangeToken \<lparr>exchangeToken = Some ''tok-A2''\<rparr> = Some ''tok-A2''
   \<and> humanID demo ''tok-A2'' = VerifierOk ''h1''
   \<and> validateUserSession demo 1589009700000
        (snd (route_refreshSession demo 1589009600200 (Some alice_token)
           (fold (serve demo) [UpdateProfile 1589009550000 (Some alice_token) \<lparr>body_fullName = Some ''Alice''\<rparr>]
              alice_world)))
        (Some alice_token)
      = Inl RESPONSE_ERROR_UNAUTHORIZED
   \<and> validateUserSession demo 1589009700000
        (snd (route_refreshSession demo 1589009600200 (Some alice_token)
           (fold (serve demo) [UpdateProfile 1589009550000 (Some alice_token) \<lparr>body_fullName = Some ''Alice''\<rparr>]
              alice_world)))
        (session_token (fst (route_refreshSession demo 1589009600200 (Some alice_token)
           (fold (serve demo) [UpdateProfile 1589009550000 (Some alice_token) \<lparr>body_fullName = Some ''Alice''\<rparr>]
              alice_world))))
      = Inr \<lparr>ua_id = 1, ua_extId = ''1589009542''\<rparr>
   \<and> validateUserSession demo 1589009700000
        (snd (route_logIn demo 1589009600200 ''Busy Hopper'' (Some (appSecret demo))
           \<lparr>exchangeToken = Some ''tok-A2''\<rparr>
           (fold (serve demo) [UpdateProfile 1589009550000 (Some alice_token) \<lparr>body_fullName = Some ''Alice''\<rparr>]
              alice_world)))
        (Some alice_token)
      = Inl RESPONSE_ERROR_UNAUTHORIZED
   \<and> validateUserSession demo 1589009700000
        (snd (route_logIn demo 1589009600200 ''Busy Hopper'' (Some (appSecret demo))
           \<lparr>exchangeToken = Some ''tok-A2''\<rparr>
           (fold (serve demo) [UpdateProfile 1589009550000 (Some alice_token) \<lparr>body_fullName = Some ''Alice''\<rparr>]
              alice_world)))
        (session_token (fst (route_logIn demo 1589009600200 ''Busy Hopper'' (Some (appSecret demo))
           \<lparr>exchangeToken = Some ''tok-A2''\<rparr>
           (fold (serve demo) [UpdateProfile 1589009550000 (Some alice_token) \<lparr>body_fullName = Some ''Alice''\<rparr>]
              alice_world))))
      = Inr \<lparr>ua_id = 1, ua_extId = ''1589009542''\<rparr>"
proof -
  let ?between = "[UpdateProfile 1589009550000 (Some alice_token) \<lparr>body_fullName = Some ''Alice''\<rparr>]"
  have h1: "exchangeToken \<lparr>exchangeToken = Some ''tok-A''\<rparr> = Some ''tok-A''" by simp
  have h2: "humanID demo ''tok-A'' = VerifierOk ''h1''" by (simp add: demo_def)
  have LA: "route_logIn demo 1589009541600 ''Jolly Bell'' (Some (appSecret demo))
        \<lparr>exchangeToken = Some ''tok-A''\<rparr> empty_world
      = (Inr \<lparr>token = alice_token, expiredAt = 1589013142\<rparr>, alice_world)"
    by (simp add: eval_defs)
  have r: "resolveHandle ''h1'' alice_world = Some (1, ''1589009542'')"
    by (simp add: eval_defs)
  have x: "map_option id_pk (findOne_extId ''1589009542'' (AppUser alice_world)) = Some 1"
    by (simp add: eval_defs)
  have h3: "resolveHandle ''h1'' (snd (route_logIn demo 1589009541600 ''Jolly Bell'' (Some (appSecret demo))
        \<lparr>exchangeToken = Some ''tok-A''\<rparr> empty_world)) = Some (1, ''1589009542'')"
    by (simp add: LA r)
  have h4: "map_option id_pk (findOne_extId ''1589009542'' (AppUser (snd (route_logIn demo 1589009541600
        ''Jolly Bell'' (Some (appSecret demo)) \<lparr>exchangeToken = Some ''tok-A''\<rparr> empty_world)))) = Some 1"
    by (simp add: LA x)
  have v: "validateUserSession demo 1589009600200 (fold (serve demo) ?between alice_world) (Some alice_token)
      = Inr \<lparr>ua_id = 1, ua_extId = ''1589009542''\<rparr>"
    by (simp add: eval_defs)
  have b: "exchangeToken \<lparr>exchangeToken = Some ''tok-A2''\<rparr> = Some ''tok-A2''" by simp
  have hb: "humanID demo ''tok-A2'' = VerifierOk ''h1''" by (simp add: demo_def)
  have t1: "session_token (Inr \<lparr>token = alice_token, expiredAt = 1589013142\<rparr>) = Some alice_token"
    by (simp add: session_token_def)
  have e1: "\<not> rat_of_int (getUnixTime 1589009541600) + rat_of_int (ms demo (jwtLifetime demo)) / 1000
              \<le> rat_of_int (clockTimestamp 1589009700000)"
    by (simp add: getUnixTime_def clockTimestamp_def demo_def)
  have e2: "\<not> rat_of_int (getUnixTime 1589009600200) + rat_of_int (ms demo (jwtLifetime demo)) / 1000
              \<le> rat_of_int (clockTimestamp 1589009700000)"
    by (simp add: getUnixTime_def clockTimestamp_def demo_def)
  have e3: "createSessionId demo ''1589009542'' (getUnixTime 1589009600200)
            \<noteq> createSessionId demo ''1589009542'' (getUnixTime 1589009541600)"
    by (simp add: createSessionId_def getUnixTime_def demo_def show_int_def show_nat.simps digit_char_def)
  from rotated_session[OF h1 h2 h3 h4, where between = ?between and nowB = 1589009600200
      and tokR = "Some alice_token" and nameB = "''Busy Hopper''"
      and bodyB = "\<lparr>exchangeToken = Some ''tok-A2''\<rparr>" and xB = "''tok-A2''"
      and nowV = 1589009700000]
  have c: "validateUserSession demo 1589009700000
        (snd (route_refreshSession demo 1589009600200 (Some alice_token) (fold (serve demo) ?between alice_world)))
        (Some alice_token) = Inl RESPONSE_ERROR_UNAUTHORIZED
     \<and> validateUserSession demo 1589009700000
        (snd (route_refreshSession demo 1589009600200 (Some alice_token) (fold (serve demo) ?between alice_world)))
        (session_token (fst (route_refreshSession demo 1589009600200 (Some alice_token)
           (fold (serve demo) ?between alice_world))))
        = Inr \<lparr>ua_id = 1, ua_extId = ''1589009542''\<rparr>
     \<and> validateUserSession demo 1589009700000
        (snd (route_logIn demo 1589009600200 ''Busy Hopper'' (Some (appSecret demo))
           \<lparr>exchangeToken = Some ''tok-A2''\<rparr> (fold (serve demo) ?between alice_world)))
        (Some alice_token) = Inl RESPONSE_ERROR_UNAUTHORIZED
     \<and> validateUserSession demo 1589009700000
        (snd (route_logIn demo 1589009600200 ''Busy Hopper'' (Some (appSecret demo))
           \<lparr>exchangeToken = Some ''tok-A2''\<rparr> (fold (serve demo) ?between alice_world)))
        (session_token (fst (route_logIn demo 1589009600200 ''Busy Hopper'' (Some (appSecret demo))
           \<lparr>exchangeToken = Some ''tok-A2''\<rparr> (fold (serve demo) ?between alice_world))))
        = Inr \<lparr>ua_id = 1, ua_extId = ''1589009542''\<rparr>"
    unfolding Let_def LA fst_conv snd_conv t1
    using v b hb e1 e2 e3 by simp
  from h1 h2 LA r x v b hb c show ?thesis by (intro conjI) simp_all
qed

theorem same_second_refresh_counterexample:
  "fst (route_logIn demo 1589009541600 ''Jolly Bell'' (Some ''app-secret'')
          \<lparr>exchangeToken = Some ''tok-A''\<rparr> empty_world)
     = Inr \<lparr>token = alice_token, expiredAt = 1589013142\<rparr>
   \<and> snd (route_logIn demo 1589009541600 ''Jolly Bell'' (Some ''app-secret'')
          \<lparr>exchangeToken = Some ''tok-A''\<rparr> empty_world) = alice_world
   \<and> fst (route_refreshSession demo 1589009542300 (Some alice_token) alice_world)
     = Inr \<lparr>token = refreshed_token, expiredAt = 1589013142\<rparr>
   \<and> refreshed_token \<noteq> alice_token
   \<and> validateUserSession demo 1589009542400
        (snd (route_refreshSession demo 1589009542300 (Some alice_token) alice_world))
        (Some alice_token)
     = Inr \<lparr>ua_id = 1, ua_extId = ''1589009542''\<rparr>"
  by (simp add: eval_defs)

text \<open>
  Claim C2, logout invalidation. When the token presented to logout validates, logout
  writes NULL into \<open>lastLogIn\<close> of the row the user's external id resolves to, so
  validation recomputes the fingerprint from the marker \<open>-1\<close>. Every token minted for
  that external id at a second \<open>t\<close> whose fingerprint differs from the one of \<open>-1\<close>
  then fails: with the unauthorized error of the fingerprint comparison while its expiry
  has not passed, with \<^verbatim>\<open>ERR_1\<close> afterwards.
\<close>

theorem logout_invalidates:
  assumes "validateUserSession c nowL w tokL = Inr s"
    and "createSessionId c (ua_extId s) t \<noteq> createSessionId c (ua_extId s) (- 1)"
  shows "map_option lastLogIn (findOne_extId (ua_extId s) (AppUser (snd (route_logOut c nowL tokL w))))
         = Some None
       \<and> validateUserSession c nowMs (snd (route_logOut c nowL tokL w))
           (Some (token (fst (newUserSession c i (ua_extId s) t signMs wM))))
         = Inl (if rat_of_int (clockTimestamp nowMs) \<ge> of_int t + of_int (ms c (jwtLifetime c)) / 1000
                then ERR_1 else RESPONSE_ERROR_UNAUTHORIZED)
       \<and> isUnauthorized (if rat_of_int (clockTimestamp nowMs) \<ge> of_int t + of_int (ms c (jwtLifetime c)) / 1000
                then ERR_1 else RESPONSE_ERROR_UNAUTHORIZED)"
proof -
  from assms(1) obtain u where u: "findOne_extId (ua_extId s) (AppUser w) = Some u"
    and i: "id_pk u = ua_id s"
    using validate_Inr_row by blast
  let ?w' = "snd (route_logOut c nowL tokL w)"
  have row: "findOne_extId (ua_extId s) (AppUser ?w') = Some (u\<lparr>lastLogIn := None, updatedAt := nowL\<rparr>)"
    using assms(1) u i
    by (simp add: route_logOut_def handleLogOut_def findOne_extId_update)
  show ?thesis
    using assms(2) by (simp add: validate_minted[OF row] row)
qed

theorem logout_invalidates_witness:
  "validateUserSession demo 1589009600000 alice_world (Some alice_token)
     = Inr \<lparr>ua_id = 1, ua_extId = ''1589009542''\<rparr>
   \<and> createSessionId demo ''1589009542'' 1589009542 \<noteq> createSessionId demo ''1589009542'' (- 1)
   \<and> token (fst (newUserSession demo 1 ''1589009542'' 1589009542 1589009541600 empty_world)) = alice_token
   \<and> validateUserSession demo 1589009700000
        (snd (route_logOut demo 1589009600000 (Some alice_token) alice_world))
        (Some (token (fst (newUserSession demo 1 ''1589009542'' 1589009542 1589009541600 empty_world))))
      = Inl RESPONSE_ERROR_UNAUTHORIZED"
proof -
  have h1: "validateUserSession demo 1589009600000 alice_world (Some alice_token)
     = Inr \<lparr>ua_id = 1, ua_extId = ''1589009542''\<rparr>"
    by (simp add: eval_defs)
  have h2: "createSessionId demo (ua_extId \<lparr>ua_id = 1, ua_extId = ''1589009542''\<rparr>) 1589009542
            \<noteq> createSessionId demo (ua_extId \<lparr>ua_id = 1, ua_extId = ''1589009542''\<rparr>) (- 1)"
    by (simp add: createSessionId_def demo_def show_int_def show_nat.simps digit_char_def)
  have m: "token (fst (newUserSession demo 1 ''1589009542'' 1589009542 1589009541600 empty_world)) = alice_token"
    by (simp add: eval_defs)
  have e: "\<not> rat_of_int 1589009542 + rat_of_int (ms demo (jwtLifetime demo)) / 1000
             \<le> rat_of_int (clockTimestamp 1589009700000)"
    by (simp add: clockTimestamp_def demo_def)
  from logout_invalidates[OF h1 h2, where nowMs = 1589009700000 and i = 1
        and signMs = 1589009541600 and wM = empty_world]
  have c: "validateUserSession demo 1589009700000
        (snd (route_logOut demo 1589009600000 (Some alice_token) alice_world))
        (Some (token (fst (newUserSession demo 1 ''1589009542'' 1589009542 1589009541600 empty_world))))
      = Inl RESPONSE_ERROR_UNAUTHORIZED"
    using e by simp
  show ?thesis using h1 h2 m c by simp
qed

text \<open>
  Claim C3, fresh-token round trip. \<^verbatim>\<open>newUserSession\<close> at the second \<open>t\<close> stores
  \<open>t * 1000\<close> in \<open>lastLogIn\<close> of the user's row; \<^verbatim>\<open>getUnixTime\<close> recovers \<open>t\<close>
  from it, so the token it returned, presented before its expiry, validates and gives the
  internal and external id of the user, provided the user's row is the one the external
  id resolves to. It is not when an earlier row carries the same external id, which two
  first logins in one second produce: in the counterexample the second user's login
  returns a token that validates as the first user, and a later session of the second
  user does not validate at all.
\<close>

theorem fresh_token_round_trip:
  assumes "findOne_extId e (AppUser w) = Some u" and "id_pk u = i"
    and "rat_of_int (clockTimestamp nowMs) < of_int t + of_int (ms c (jwtLifetime c)) / 1000"
  shows "validateUserSession c nowMs (snd (newUserSession c i e t signMs w))
           (Some (token (fst (newUserSession c i e t signMs w))))
         = Inr \<lparr>ua_id = i, ua_extId = e\<rparr>
       \<and> map_option (\<lambda>u'. map_option getUnixTime (lastLogIn u'))
           (findOne_extId e (AppUser (snd (newUserSession c i e t signMs w)))) = Some (Some t)"
proof -
  let ?w' = "snd (newUserSession c i e t signMs w)"
  have row: "findOne_extId e (AppUser ?w') =
             Some (u\<lparr>lastLogIn := Some (t * 1000), updatedAt := t * 1000\<rparr>)"
    using assms(1,2) by (rule findOne_after_newUserSession)
  show ?thesis
    using assms(2,3) by (simp add: validate_minted[OF row] row getUnixTime_seconds)
qed

theorem fresh_token_round_trip_witness:
  "findOne_extId ''1589009542'' (AppUser alice_world) = Some alice_row
   \<and> id_pk alice_row = 1
   \<and> rat_of_int (clockTimestamp 1589009700000) < of_int 1589009600 + of_int (ms demo (jwtLifetime demo)) / 1000
   \<and> validateUserSession demo 1589009700000
        (snd (newUserSession demo 1 ''1589009542'' 1589009600 1589009600200 alice_world))
        (Some (token (fst (newUserSession demo 1 ''1589009542'' 1589009600 1589009600200 alice_world))))
      = Inr \<lparr>ua_id = 1, ua_extId = ''1589009542''\<rparr>"
proof -
  have h1: "findOne_extId ''1589009542'' (AppUser alice_world) = Some alice_row"
    by (simp add: findOne_extId_def alice_world_def alice_row_def)
  have h2: "id_pk alice_row = 1" by (simp add: alice_row_def)
  have h3: "rat_of_int (clockTimestamp 1589009700000)
            < of_int 1589009600 + of_int (ms demo (jwtLifetime demo)) / 1000"
    by (simp add: clockTimestamp_def demo_def)
  show ?thesis
    using h1 h2 h3 fresh_token_round_trip[OF h1 h2 h3, where signMs = 1589009600200]
    by simp
qed

theorem shared_external_id_counterexample:
  "route_logIn demo 1589009541900 ''Busy Hopper'' (Some ''app-secret'')
     \<lparr>exchangeToken = Some ''tok-B''\<rparr> alice_world
     = (Inr \<lparr>token = alice_token, expiredAt = 1589013142\<rparr>, two_user_world)
   \<and> resolveHandle ''h2'' two_user_world = Some (2, ''1589009542'')
   \<and> validateUserSession demo 1589009600000 two_user_world (Some alice_token)
     = Inr \<lparr>ua_id = 1, ua_extId = ''1589009542''\<rparr>
   \<and> validateUserSession demo 1589009700000
        (snd (newUserSession demo 2 ''1589009542'' 1589009600 1589009600200 two_user_world))
        (Some (token (fst (newUserSession demo 2 ''1589009542'' 1589009600 1589009600200 two_user_world))))
     = Inl RESPONSE_ERROR_UNAUTHORIZED"
  by (simp add: eval_defs)

text \<open>
  Claim C4, expiry precedence. A token whose \<^verbatim>\<open>exp\<close> lies strictly before the clock of
  the validation, read in whole seconds, fails whatever the rows of the table are, hence
  also when its fingerprint matches the current one: with \<^verbatim>\<open>ERR_1\<close>, the expired-session
  error, when its signature verifies, and with \<^verbatim>\<open>ERR_2\<close> when it does not. Both are
  unauthorized failures. The witness is a token whose fingerprint still matches.
\<close>

theorem expired_token_rejected:
  assumes "jwt_exp p < of_int (clockTimestamp nowMs)"
  shows "validateUserSession c nowMs w (Some (Signed p k)) =
           Inl (if k = jwtSecret c then ERR_1 else ERR_2)
       \<and> isUnauthorized (if k = jwtSecret c then ERR_1 else ERR_2)"
  using assms by (simp add: validateUserSession_def verifyJWT_def)

theorem expired_token_rejected_witness:
  "jwt_exp alice_payload < rat_of_int (clockTimestamp 1589013143000)
   \<and> createSessionId demo ''1589009542'' 1589009542 = data_sessionId alice_payload
   \<and> validateUserSession demo 1589013143000 alice_world (Some alice_token) = Inl ERR_1"
proof -
  have h: "jwt_exp alice_payload < rat_of_int (clockTimestamp 1589013143000)"
    by (simp add: alice_payload_def clockTimestamp_def)
  have m: "createSessionId demo ''1589009542'' 1589009542 = data_sessionId alice_payload"
    by (simp add: eval_defs)
  have k: "jwtSecret demo = ''jwt-secret''" by (simp add: demo_def)
  show ?thesis
    using h m expired_token_rejected[OF h, where c = demo and w = alice_world and k = "''jwt-secret''"]
    by (simp add: alice_token_def k)
qed

text \<open>
  Claim C5, logout is best effort. The logout route always answers with success. When the
  validation of the presented token fails, the only change to the world is the line
  written to the logger: no row of the table is written.
\<close>

theorem logout_best_effort:
  "fst (route_logOut c nowMs tok w) = Inr ()
   \<and> (validateUserSession c nowMs w tok = Inl e \<longrightarrow>
        snd (route_logOut c nowMs tok w) = w\<lparr>logged := logged w @ [SessionValidationFailed e]\<rparr>
      \<and> AppUser (snd (route_logOut c nowMs tok w)) = AppUser w)"
  by (simp add: route_logOut_def handleLogOut_def split: sum.splits)

theorem logout_best_effort_witness:
  "validateUserSession demo 1589013143000 alice_world (Some alice_token) = Inl ERR_1
   \<and> route_logOut demo 1589013143000 (Some alice_token) alice_world
      = (Inr (), alice_world\<lparr>logged := [SessionValidationFailed ERR_1]\<rparr>)
   \<and> AppUser (snd (route_logOut demo 1589013143000 (Some alice_token) alice_world)) = [alice_row]"
proof -
  have h: "validateUserSession demo 1589013143000 alice_world (Some alice_token) = Inl ERR_1"
    by (simp add: eval_defs)
  have l: "logged alice_world = []" "AppUser alice_world = [alice_row]"
    by (simp_all add: alice_world_def)
  show ?thesis
    using h logout_best_effort[where c = demo and nowMs = 1589013143000 and tok = "Some alice_token"
        and w = alice_world and e = ERR_1]
    by (simp add: l prod_eq_iff)
qed

text \<open>
  Claim C6, client-secret gate. A login request whose \<^verbatim>\<open>clientSecret\<close> header is absent
  or differs from the configured secret fails with the unauthorized error and leaves the
  world as it was: in particular no exchange token has been sent to the identity
  verifier.
\<close>

theorem client_secret_gate:
  assumes "clientSecret \<noteq> Some (appSecret c)"
  shows "route_logIn c nowMs randomName clientSecret body w = (Inl RESPONSE_ERROR_UNAUTHORIZED, w)
       \<and> isUnauthorized RESPONSE_ERROR_UNAUTHORIZED
       \<and> verifyCalls (snd (route_logIn c nowMs randomName clientSecret body w)) = verifyCalls w"
  using assms by (simp add: route_logIn_def handleValidateClientApp_def)

theorem client_secret_gate_witness:
  "Some ''guess'' \<noteq> Some (appSecret demo)
   \<and> route_logIn demo 1589009541600 ''Jolly Bell'' (Some ''guess'')
        \<lparr>exchangeToken = Some ''tok-A''\<rparr> empty_world
      = (Inl RESPONSE_ERROR_UNAUTHORIZED, empty_world)
   \<and> verifyCalls (snd (route_logIn demo 1589009541600 ''Jolly Bell'' (Some ''guess'')
        \<lparr>exchangeToken = Some ''tok-A''\<rparr> empty_world)) = []"
proof -
  have h: "Some ''guess'' \<noteq> Some (appSecret demo)" by (simp add: demo_def)
  show ?thesis
    using h client_secret_gate[OF h, where nowMs = 1589009541600 and randomName = "''Jolly Bell''"
        and body = "\<lparr>exchangeToken = Some ''tok-A''\<rparr>" and w = empty_world]
    by (simp add: empty_world_def)
qed

text \<open>
  Claim C7, idempotent find-or-create. Two logins whose exchange tokens the verifier maps
  to the same handle \<open>h\<close>, with any requests served between them: after the first the
  handle resolves to a record; the requests between leave that resolution as it is; after
  the second login the handle resolves to the same internal and external id; both tokens
  carry that external id; the second login finds the record instead of creating one, and
  the table has as many rows as before it. When the handle was unknown, the first login
  created the record and added exactly one row.
\<close>

theorem idempotent_find_or_create:
  assumes "exchangeToken bodyA = Some xA" and "humanID c xA = VerifierOk h"
    and "exchangeToken bodyB = Some xB" and "humanID c xB = VerifierOk h"
  shows "resolveHandle h (snd (handleLogIn c nowA nameA bodyA w)) \<noteq> None
       \<and> resolveHandle h (fold (serve c) between (snd (handleLogIn c nowA nameA bodyA w)))
           = resolveHandle h (snd (handleLogIn c nowA nameA bodyA w))
       \<and> resolveHandle h (snd (handleLogIn c nowB nameB bodyB
                (fold (serve c) between (snd (handleLogIn c nowA nameA bodyA w)))))
           = resolveHandle h (snd (handleLogIn c nowA nameA bodyA w))
       \<and> session_userId (fst (handleLogIn c nowA nameA bodyA w))
           = map_option snd (resolveHandle h (snd (handleLogIn c nowA nameA bodyA w)))
       \<and> session_userId (fst (handleLogIn c nowB nameB bodyB
                (fold (serve c) between (snd (handleLogIn c nowA nameA bodyA w)))))
           = session_userId (fst (handleLogIn c nowA nameA bodyA w))
       \<and> length (AppUser (snd (handleLogIn c nowB nameB bodyB
                (fold (serve c) between (snd (handleLogIn c nowA nameA bodyA w))))))
           = length (AppUser (fold (serve c) between (snd (handleLogIn c nowA nameA bodyA w))))
       \<and> \<not> snd (fst (findOrCreate h (generateExtId nowB) nameB nowB
                     (snd (verifyExchangeToken c xB
                        (fold (serve c) between (snd (handleLogIn c nowA nameA bodyA w)))))))
       \<and> (find (\<lambda>u. userHash u = h) (AppUser w) = None \<longrightarrow>
            snd (fst (findOrCreate h (generateExtId nowA) nameA nowA (snd (verifyExchangeToken c xA w))))
          \<and> length (AppUser (snd (handleLogIn c nowA nameA bodyA w))) = Suc (length (AppUser w)))"
proof -
  let ?LA = "handleLogIn c nowA nameA bodyA w"
  let ?wA = "snd ?LA"
  let ?w' = "fold (serve c) between ?wA"
  let ?w'v = "?w'\<lparr>verifyCalls := verifyCalls ?w' @ [xB]\<rparr>"
  let ?LB = "handleLogIn c nowB nameB bodyB ?w'"
  have c1: "resolveHandle h ?wA \<noteq> None"
    by (rule handleLogIn_resolves(1)[OF assms(1,2)])
  have c4: "session_userId (fst ?LA) = map_option snd (resolveHandle h ?wA)"
    by (rule handleLogIn_resolves(2)[OF assms(1,2)])
  from identities_fold_serve[of c between ?wA]
  obtain ys where ys: "identities ?w' = identities ?wA @ ys" by (elim exE)
  have c2: "resolveHandle h ?w' = resolveHandle h ?wA"
    using c1 ys by (rule resolveHandle_extends)
  from identities_handleLogIn[of c nowB nameB bodyB ?w']
  obtain zs where zs: "identities (snd ?LB) = identities ?w' @ zs" by (elim exE)
  have k': "resolveHandle h ?w' \<noteq> None" using c1 c2 by simp
  have "resolveHandle h (snd ?LB) = resolveHandle h ?w'"
    using k' zs by (rule resolveHandle_extends)
  with c2 have c3: "resolveHandle h (snd ?LB) = resolveHandle h ?wA" by simp
  have "session_userId (fst ?LB) = map_option snd (resolveHandle h (snd ?LB))"
    by (rule handleLogIn_resolves(2)[OF assms(3,4)])
  with c3 c4 have c5: "session_userId (fst ?LB) = session_userId (fst ?LA)" by simp
  have vB: "snd (verifyExchangeToken c xB ?w') = ?w'v"
    using assms(4) by (simp add: verifyExchangeToken_def Let_def)
  have known: "resolveHandle h ?w'v \<noteq> None"
    using c1 c2 by (simp add: resolveHandle_verifyCalls)
  have c7: "\<not> snd (fst (findOrCreate h (generateExtId nowB) nameB nowB (snd (verifyExchangeToken c xB ?w'))))"
    using findOrCreate_known(1)[OF known] by (simp add: vB)
  from handleLogIn_row[OF assms(3,4), of nowB nameB ?w']
  have "length (AppUser (snd ?LB))
        = length (AppUser (snd (findOrCreate h (generateExtId nowB) nameB nowB ?w'v)))"
    by (elim exE conjE)
  then have c6: "length (AppUser (snd ?LB)) = length (AppUser ?w')"
    using findOrCreate_known(2)[OF known] by simp
  from handleLogIn_row[OF assms(1,2), of nowA nameA w]
  have lenA: "length (AppUser ?wA)
        = length (AppUser (snd (findOrCreate h (generateExtId nowA) nameA nowA
             (w\<lparr>verifyCalls := verifyCalls w @ [xA]\<rparr>))))"
    by (elim exE conjE)
  have vA: "snd (verifyExchangeToken c xA w) = w\<lparr>verifyCalls := verifyCalls w @ [xA]\<rparr>"
    using assms(2) by (simp add: verifyExchangeToken_def Let_def)
  have c8: "find (\<lambda>u. userHash u = h) (AppUser w) = None \<longrightarrow>
            snd (fst (findOrCreate h (generateExtId nowA) nameA nowA (snd (verifyExchangeToken c xA w))))
          \<and> length (AppUser ?wA) = Suc (length (AppUser w))"
    by (simp add: vA lenA created_findOrCreate length_findOrCreate)
  from c1 c2 c3 c4 c5 c6 c7 c8 show ?thesis by (intro conjI)
qed

theorem idempotent_find_or_create_witness:
  "exchangeToken \<lparr>exchangeToken = Some ''tok-A''\<rparr> = Some ''tok-A''
   \<and> humanID demo ''tok-A'' = VerifierOk ''h1''
   \<and> exchangeToken \<lparr>exchangeToken = Some ''tok-A2''\<rparr> = Some ''tok-A2''
   \<and> humanID demo ''tok-A2'' = VerifierOk ''h1''
   \<and> find (\<lambda>u. userHash u = ''h1'') (AppUser empty_world) = None
   \<and> resolveHandle ''h1'' (snd (handleLogIn demo 1589009541600 ''Jolly Bell''
        \<lparr>exchangeToken = Some ''tok-A''\<rparr> empty_world)) = Some (1, ''1589009542'')
   \<and> resolveHandle ''h1'' (snd (handleLogIn demo 1589013000000 ''Busy Hopper''
        \<lparr>exchangeToken = Some ''tok-A2''\<rparr>
        (fold (serve demo) [LogOut 1589009600000 (Some alice_token)]
          (snd (handleLogIn demo 1589009541600 ''Jolly Bell''
             \<lparr>exchangeToken = Some ''tok-A''\<rparr> empty_world))))) = Some (1, ''1589009542'')
   \<and> length (AppUser (snd (handleLogIn demo 1589013000000 ''Busy Hopper''
        \<lparr>exchangeToken = Some ''tok-A2''\<rparr>
        (fold (serve demo) [LogOut 1589009600000 (Some alice_token)]
          (snd (handleLogIn demo 1589009541600 ''Jolly Bell''
             \<lparr>exchangeToken = Some ''tok-A''\<rparr> empty_world)))))) = 1"
proof -
  have h1: "exchangeToken \<lparr>exchangeToken = Some ''tok-A''\<rparr> = Some ''tok-A''" by simp
  have h2: "humanID demo ''tok-A'' = VerifierOk ''h1''" by (simp add: demo_def)
  have h3: "exchangeToken \<lparr>exchangeToken = Some ''tok-A2''\<rparr> = Some ''tok-A2''" by simp
  have h4: "humanID demo ''tok-A2'' = VerifierOk ''h1''" by (simp add: demo_def)
  have h5: "find (\<lambda>u. userHash u = ''h1'') (AppUser empty_world) = None"
    by (simp add: empty_world_def)
  have wA: "snd (handleLogIn demo 1589009541600 ''Jolly Bell''
        \<lparr>exchangeToken = Some ''tok-A''\<rparr> empty_world) = alice_world"
    by (simp add: eval_defs)
  have r: "resolveHandle ''h1'' alice_world = Some (1, ''1589009542'')"
    by (simp add: eval_defs)
  have l: "length (AppUser (fold (serve demo) [LogOut 1589009600000 (Some alice_token)] alice_world)) = 1"
    by (simp add: eval_defs)
  show ?thesis
    using h1 h2 h3 h4 h5 r l
      idempotent_find_or_create[OF h1 h2 h3 h4, where nowA = 1589009541600 and nameA = "''Jolly Bell''"
        and nowB = 1589013000000 and nameB = "''Busy Hopper''" and w = empty_world
        and between = "[LogOut 1589009600000 (Some alice_token)]"]
    by (simp add: wA)
qed

text \<open>
  Claim C8, token construction. The answer of \<^verbatim>\<open>newUserSession\<close> for the external id
  \<open>e\<close> and the timestamp \<open>t\<close>: the payload carries \<^verbatim>\<open>exp = t + ms(jwtLifetime) / 1000\<close>,
  a whole number of seconds when the lifetime is one, the external id as \<^verbatim>\<open>userId\<close> and
  the fingerprint of \<open>(e, t)\<close> as \<^verbatim>\<open>sessionId\<close>; \<^verbatim>\<open>expiredAt\<close> equals the embedded
  expiry. The embedded issue time \<^verbatim>\<open>iat\<close> is the clock the signing library reads,
  rounded down to a second, whatever \<open>t\<close> is. Even for one clock reading the two differ:
  the handlers pass the clock rounded to the nearest second as \<open>t\<close>, and at
  1589009541600 ms \<^verbatim>\<open>iat\<close> is one second less, which is the counterexample.
\<close>

theorem token_construction:
  "fst (newUserSession c i e t signMs w) =
     \<lparr>token = Signed \<lparr>jwt_iat = clockTimestamp signMs,
                      jwt_exp = of_int t + of_int (ms c (jwtLifetime c)) / 1000,
                      data_userId = e, data_sessionId = createSessionId c e t\<rparr> (jwtSecret c),
      expiredAt = of_int t + of_int (ms c (jwtLifetime c)) / 1000\<rparr>
   \<and> (1000 dvd ms c (jwtLifetime c) \<longrightarrow>
        rat_of_int t + of_int (ms c (jwtLifetime c)) / 1000 = of_int (t + ms c (jwtLifetime c) div 1000))"
  by (auto simp: newUserSession_def Let_def jwt_sign_def)

theorem token_construction_witness:
  "1000 dvd ms demo (jwtLifetime demo)
   \<and> fst (newUserSession demo 1 ''1589009542'' 1589009542 1589009541600 alice_world)
      = \<lparr>token = alice_token, expiredAt = 1589013142\<rparr>
   \<and> rat_of_int 1589009542 + of_int (ms demo (jwtLifetime demo)) / 1000
      = of_int (1589009542 + ms demo (jwtLifetime demo) div 1000)"
proof -
  have h: "1000 dvd ms demo (jwtLifetime demo)" by (simp add: demo_def)
  have v: "ms demo (jwtLifetime demo) = 3600000" "jwtSecret demo = ''jwt-secret''"
    by (simp_all add: demo_def)
  have f: "createSessionId demo ''1589009542'' 1589009542 = ''sid-secret:1589009542-1589009542''"
    by (simp add: createSessionId_def demo_def show_int_def show_nat.simps digit_char_def)
  show ?thesis
    using h token_construction[where c = demo and i = 1 and e = "''1589009542''" and t = 1589009542
        and signMs = 1589009541600 and w = alice_world]
    by (simp add: v f alice_token_def alice_payload_def clockTimestamp_def)
qed

theorem issue_time_counterexample:
  "map_option jwt_iat (payload_of (token (fst
      (newUserSession demo 1 ''1589009542'' (getUnixTime 1589009541600) 1589009541600 alice_world))))
   \<noteq> Some (getUnixTime 1589009541600)"
  by (simp add: eval_defs)

text \<open>
  Claim C9, validation of a profile update. \<^verbatim>\<open>handleUpdateProfile\<close> does not check its
  body: a request with a valid token and no \<^verbatim>\<open>fullName\<close> is answered with success, not
  with a validation failure.
\<close>

theorem update_profile_missing_name:
  "fst (route_updateProfile demo 1589009600000 (Some alice_token)
          \<lparr>body_fullName = None\<rparr> alice_world) = Inr ()
   \<and> fst (route_updateProfile demo 1589009600000 (Some alice_token)
          \<lparr>body_fullName = None\<rparr> alice_world) \<noteq> Inl VALIDATION_FAILED"
  by (simp add: eval_defs)

text \<open>
  Claim C10, forged tokens. A token that is absent, malformed or signed with another
  secret fails with \<^verbatim>\<open>ERR_2\<close>, the invalid-session error, and the outcome is the same in
  any two worlds: no row of the table is consulted.
\<close>

theorem forged_token_noninterference:
  assumes "\<not> signatureVerifies tok (jwtSecret c)"
  shows "validateUserSession c nowMs w tok = Inl ERR_2
       \<and> validateUserSession c nowMs w' tok = validateUserSession c nowMs w tok"
  using assms by (simp add: validateUserSession_def verifyJWT_forged)

theorem forged_token_noninterference_witness:
  "\<not> signatureVerifies (Some forged_token) (jwtSecret demo)
   \<and> validateUserSession demo 1589009600000 alice_world (Some forged_token) = Inl ERR_2
   \<and> validateUserSession demo 1589009600000 empty_world (Some forged_token)
       = validateUserSession demo 1589009600000 alice_world (Some forged_token)"
proof -
  have h: "\<not> signatureVerifies (Some forged_token) (jwtSecret demo)"
    by (simp add: forged_token_def demo_def)
  show ?thesis
    using h forged_token_noninterference[OF h, where nowMs = 1589009600000
        and w = alice_world and w' = empty_world]
    by simp
qed

end
